theory Spec2Isabelle
  imports Complex_Main "HOL-Library.AList" "HOL-Library.Signed_Division"
begin

section \<open>Go values\<close>

text \<open>
  A Go \<open>string\<close> and a Go \<open>[]byte\<close> are byte sequences: both are \<^typ>\<open>string\<close> here,
  one \<^typ>\<open>char\<close> per byte. A Go \<open>int\<close> is an \<^typ>\<open>int\<close>; the only Go ints of the
  model are lengths, counters bounded by a length, and clock readings, all far below
  \<open>2^63\<close>.

  A Go \<open>map[string]V\<close> is an association list with one entry per key: \<open>m[k] = v\<close> is
  \<^const>\<open>AList.update\<close>, \<open>m[k]\<close> with the comma-ok form is \<^const>\<open>map_of\<close>, \<open>delete(m, k)\<close>
  is \<^const>\<open>AList.delete\<close>. The order in which \<open>range\<close> visits a Go map is unspecified; the
  model visits the entries in the order of the list. Every statement below about the
  result of such a loop speaks of membership, distinctness or length only, which no
  order of visit changes.
\<close>

type_synonym 'v gomap = "(string \<times> 'v) list"

section \<open>run.go: test results and the comparison with a baseline\<close>

record CheckResult =
  Check :: string
  CheckPassed :: bool
  Message :: string

record TestResult =
  Name :: string
  Status :: string
  Duration :: int
  CheckResults :: "CheckResult list"
  Error :: string
  Regression :: bool

record BaselineComparison =
  BaselineDate :: int
  NewFailures :: "string list"
  NewPasses :: "string list"
  RemovedTests :: "string list"
  AddedTests :: "string list"
  BehaviorChanges :: "string list"

record EvalResult =
  Timestamp :: int
  TestSuite :: string
  TotalTests :: int
  Passed :: int
  Failed :: int
  Regressions :: int
  TestResults :: "TestResult list"
  Comparison :: "BaselineComparison option"

text \<open>
  What \<open>os.ReadFile\<close> followed by \<open>json.Unmarshal\<close> into an \<open>EvalResult\<close> gives for the
  baseline path: the read fails, the decoding fails, or a baseline is loaded.
\<close>

datatype baseline_file = ReadError | DecodeError | Loaded EvalResult

text \<open>\<open>comparison := &BaselineComparison{}\<close>: the zero value (the zero time is 0).\<close>

definition emptyComparison :: BaselineComparison where
  "emptyComparison =
     \<lparr>BaselineDate = 0, NewFailures = [], NewPasses = [], RemovedTests = [],
      AddedTests = [], BehaviorChanges = []\<rparr>"

text \<open>
  \<open>for _, tr := range results { m[tr.Name] = tr }\<close>: the index of a result list by test
  name. A later result of the same name overwrites the earlier one.
\<close>

definition indexResults :: "TestResult list \<Rightarrow> TestResult gomap" where
  "indexResults trs = foldl (\<lambda>m tr. AList.update (Name tr) tr m) [] trs"

text \<open>The body of the first loop, over the entries \<open>(name, cr)\<close> of \<open>currentResults\<close>.\<close>

definition classifyCurrent ::
  "TestResult gomap \<Rightarrow> BaselineComparison \<Rightarrow> string \<times> TestResult \<Rightarrow> BaselineComparison" where
  "classifyCurrent baselineResults comparison entry =
     (case entry of (name, cr) \<Rightarrow>
        (case map_of baselineResults name of
           Some br \<Rightarrow>
             if Status br = ''passed'' \<and> Status cr = ''failed''
             then comparison\<lparr>NewFailures := NewFailures comparison @ [name]\<rparr>
             else if Status br = ''failed'' \<and> Status cr = ''passed''
             then comparison\<lparr>NewPasses := NewPasses comparison @ [name]\<rparr>
             else comparison
         | None \<Rightarrow> comparison\<lparr>AddedTests := AddedTests comparison @ [name]\<rparr>))"

text \<open>The body of the second loop, over the keys of \<open>baselineResults\<close>.\<close>

definition classifyRemoved ::
  "TestResult gomap \<Rightarrow> BaselineComparison \<Rightarrow> string \<times> TestResult \<Rightarrow> BaselineComparison" where
  "classifyRemoved currentResults comparison entry =
     (case map_of currentResults (fst entry) of
        Some cr \<Rightarrow> comparison
      | None \<Rightarrow> comparison\<lparr>RemovedTests := RemovedTests comparison @ [fst entry]\<rparr>)"

definition compareWithBaselineResults :: "EvalResult \<Rightarrow> baseline_file \<Rightarrow> BaselineComparison" where
  "compareWithBaselineResults current file =
     (case file of
        ReadError \<Rightarrow> emptyComparison
      | DecodeError \<Rightarrow> emptyComparison
      | Loaded baseline \<Rightarrow>
          (let comparison = emptyComparison\<lparr>BaselineDate := Timestamp baseline\<rparr>;
               baselineResults = indexResults (TestResults baseline);
               currentResults = indexResults (TestResults current);
               comparison = foldl (classifyCurrent baselineResults) comparison currentResults
           in foldl (classifyRemoved currentResults) comparison baselineResults))"

text \<open>
  The status a name has in a result list, as the comparison reads it: the status of the
  last result of that name.
\<close>

definition statusOf :: "TestResult list \<Rightarrow> string \<Rightarrow> string option" where
  "statusOf trs name = map_option Status (map_of (indexResults trs) name)"

text \<open>
  The conditions under which the first loop appends a name to \<open>NewFailures\<close> and to
  \<open>NewPasses\<close>, as predicates on an entry of \<open>currentResults\<close>.
\<close>

definition isNewFailure :: "TestResult gomap \<Rightarrow> string \<times> TestResult \<Rightarrow> bool" where
  "isNewFailure B e = (case map_of B (fst e) of Some br \<Rightarrow> Status br = ''passed'' \<and> Status (snd e) = ''failed'' | None \<Rightarrow> False)"

definition isNewPass :: "TestResult gomap \<Rightarrow> string \<times> TestResult \<Rightarrow> bool" where
  "isNewPass B e = (case map_of B (fst e) of Some br \<Rightarrow> Status br = ''failed'' \<and> Status (snd e) = ''passed'' | None \<Rightarrow> False)"

subsection \<open>Running a suite\<close>

record TestCase =
  test_Name :: string
  Prompt :: string
  Checks :: "string list"

record TestSuite =
  suite_Name :: string
  Description :: string
  Tests :: "TestCase list"






datatype go_panic = NilDereference | IndexOutOfRange











text \<open>Result values for the examples: a test result of a name and a status, and a run of some results.\<close>

definition mkResult :: "string \<Rightarrow> string \<Rightarrow> TestResult" where
  "mkResult name status =
     \<lparr>Name = name, Status = status, Duration = 0, CheckResults = [], Error = [], Regression = False\<rparr>"

definition mkEval :: "TestResult list \<Rightarrow> EvalResult" where
  "mkEval trs =
     \<lparr>Timestamp = 0, TestSuite = [], TotalTests = int (length trs),
      Passed = int (length (filter (\<lambda>tr. Status tr = ''passed'') trs)),
      Failed = int (length (filter (\<lambda>tr. Status tr \<noteq> ''passed'') trs)),
      Regressions = 0, TestResults = trs, Comparison = None\<rparr>"






section \<open>Library functions on strings\<close>

text \<open>The value of a byte, and the tests and maps of the ASCII letters.\<close>

definition byteOf :: "char \<Rightarrow> int" where
  "byteOf c = of_char c"

definition isASCII :: "char \<Rightarrow> bool" where
  "isASCII c = (byteOf c < 128)"

definition toLowerASCII :: "char \<Rightarrow> char" where
  "toLowerASCII c = (if 65 \<le> byteOf c \<and> byteOf c \<le> 90 then char_of (byteOf c + 32) else c)"

text \<open>
  \<open>strings.Join(values, sep)\<close> and \<open>strings.HasPrefix(s, prefix)\<close>.
\<close>

fun Join :: "string list \<Rightarrow> string \<Rightarrow> string" where
  "Join [] sep = []"
| "Join [v] sep = v"
| "Join (v # w # vs) sep = v @ sep @ Join (w # vs) sep"


text \<open>\<open>fmt.Sprintf("%d", n)\<close>: the decimal digits of an integer, after a minus sign when it is negative.\<close>

function decimal :: "int \<Rightarrow> string" where
  "decimal n = (if n < 10 then [char_of (48 + n)] else decimal (n div 10) @ [char_of (48 + n mod 10)])"
  by auto
termination
  by (relation "measure nat") auto

declare decimal.simps [simp del]

definition Sprintf_d :: "int \<Rightarrow> string" where
  "Sprintf_d n = (if n < 0 then CHR ''-'' # decimal (- n) else decimal n)"

text \<open>
  \<open>utf8.DecodeRuneInString\<close> on a string that is not empty: the code point of the first
  rune and the number of bytes it takes, or \<open>(RuneError, 1)\<close> when the string does not
  start with a well-formed UTF-8 sequence (a wrong first byte, a missing or wrong
  continuation byte, an overlong form, a surrogate, a code point beyond \<open>U+10FFFF\<close>).
\<close>

definition RuneError :: int where
  "RuneError = 0xFFFD"

definition isCont :: "int \<Rightarrow> int \<Rightarrow> string \<Rightarrow> nat \<Rightarrow> bool" where
  "isCont lo hi s i = (i < length s \<and> lo \<le> byteOf (s ! i) \<and> byteOf (s ! i) \<le> hi)"

definition contBits :: "string \<Rightarrow> nat \<Rightarrow> int" where
  "contBits s i = byteOf (s ! i) - 128"

definition DecodeRune :: "string \<Rightarrow> int \<times> nat" where
  "DecodeRune s =
     (let b0 = byteOf (s ! 0) in
      if b0 < 128 then (b0, 1)
      else if 194 \<le> b0 \<and> b0 \<le> 223
      then (if isCont 128 191 s 1 then ((b0 - 192) * 64 + contBits s 1, 2) else (RuneError, 1))
      else if 224 \<le> b0 \<and> b0 \<le> 239
      then (if isCont (if b0 = 224 then 160 else 128) (if b0 = 237 then 159 else 191) s 1
               \<and> isCont 128 191 s 2
            then ((b0 - 224) * 4096 + contBits s 1 * 64 + contBits s 2, 3)
            else (RuneError, 1))
      else if 240 \<le> b0 \<and> b0 \<le> 244
      then (if isCont (if b0 = 240 then 144 else 128) (if b0 = 244 then 143 else 191) s 1
               \<and> isCont 128 191 s 2 \<and> isCont 128 191 s 3
            then ((b0 - 240) * 262144 + contBits s 1 * 4096 + contBits s 2 * 64 + contBits s 3, 4)
            else (RuneError, 1))
      else (RuneError, 1))"

section \<open>encoding/json: the encoding of a Go string\<close>

text \<open>
  \<open>json.Marshal(string(body))\<close>: the JSON string literal Go writes for a string, with the
  escaping of HTML on, as \<open>json.Marshal\<close> has it (\<open>appendString\<close> of encode.go, Go 1.22).
  A quote and a backslash get a backslash; backspace, form feed, newline, carriage
  return and tab their two-character escape; every other byte below \<open>0x20\<close> and \<open><\<close>,
  \<open>>\<close>, \<open>&\<close> a six-character escape with the four hexadecimal digits of the byte; every other ASCII
  byte stands for itself. A byte that
  starts no well-formed UTF-8 sequence is replaced by the six-character escape of the replacement character \<open>U+FFFD\<close>; the line and paragraph separators \<open>U+2028\<close> and \<open>U+2029\<close> are
  escaped; every other well-formed sequence is copied.
\<close>

definition hexDigit :: "nat \<Rightarrow> char" where
  "hexDigit n = ''0123456789abcdef'' ! n"

definition escapeASCII :: "char \<Rightarrow> string" where
  "escapeASCII b =
     (if b = CHR 0x5C \<or> b = CHR 0x22 then [CHR 0x5C, b]
      else if b = CHR 0x08 then [CHR 0x5C, CHR ''b'']
      else if b = CHR 0x0C then [CHR 0x5C, CHR ''f'']
      else if b = CHR 0x0A then [CHR 0x5C, CHR ''n'']
      else if b = CHR 0x0D then [CHR 0x5C, CHR ''r'']
      else if b = CHR 0x09 then [CHR 0x5C, CHR ''t'']
      else if byteOf b < 32 \<or> b = CHR ''<'' \<or> b = CHR ''>'' \<or> b = CHR ''&''
      then [CHR 0x5C, CHR ''u'', CHR ''0'', CHR ''0'', hexDigit (nat (byteOf b div 16)), hexDigit (nat (byteOf b mod 16))]
      else [b])"

fun appendBytes :: "string \<Rightarrow> string" where
  "appendBytes [] = []"
| "appendBytes (b # bs) =
     (if byteOf b < 128 then escapeASCII b @ appendBytes bs
      else (case DecodeRune (b # bs) of (c, width) \<Rightarrow>
        if c = RuneError \<and> width = 1
        then [CHR 0x5C, CHR ''u'', CHR ''f'', CHR ''f'', CHR ''f'', CHR ''d''] @ appendBytes bs
        else if c = 0x2028 \<or> c = 0x2029
        then [CHR 0x5C, CHR ''u'', CHR ''2'', CHR ''0'', CHR ''2'', hexDigit (nat (c mod 16))]
               @ appendBytes (drop (width - 1) bs)
        else b # take (width - 1) bs @ appendBytes (drop (width - 1) bs)))"

definition appendString :: "string \<Rightarrow> string" where
  "appendString src = [CHR 0x22] @ appendBytes src @ [CHR 0x22]"

section \<open>trace.go: the data of a trace\<close>

text \<open>
  A decoded JSON value, as \<open>json.Unmarshal\<close> builds it in an \<open>interface{}\<close>: \<open>nil\<close>, a
  \<open>bool\<close>, a \<open>float64\<close> (here the real number it stands for), a \<open>string\<close>, a
  \<open>[]interface{}\<close> or a \<open>map[string]interface{}\<close>.
\<close>

datatype json =
  JNull | JBool bool | JNumber real | JString string | JArray "json list"
  | JObject "(string \<times> json) list"

record ToolCall =
  tc_ID :: string
  tc_Name :: string
  tc_Args :: "string option"
  tc_Response :: "string option"

record TraceRequest =
  treq_Method :: string
  treq_Path :: string
  treq_Headers :: "string gomap"
  treq_Body :: "string option"

record TraceResponse =
  tresp_StatusCode :: int
  tresp_Headers :: "string gomap"
  tresp_Body :: "string option"

record LLMTrace =
  trace_ID :: string
  trace_Timestamp :: int
  trace_Provider :: string
  trace_Endpoint :: string
  trace_Model :: string
  trace_Request :: TraceRequest
  trace_Response :: TraceResponse
  trace_Latency :: int
  trace_ToolCalls :: "ToolCall list"
  trace_TokensIn :: int
  trace_TokensOut :: int
  trace_Metadata :: "string gomap"

text \<open>
  \<open>net/url\<close> and \<open>net/http\<close>: a URL, a header (\<open>map[string][]string\<close>), the request the
  proxy receives, the request it sends on, the response of the provider, and what the
  handler hands to the \<open>ResponseWriter\<close>.
\<close>

record URL =
  url_Scheme :: string
  url_Host :: string
  url_Path :: string
  url_RawQuery :: string

type_synonym Header = "string list gomap"

record Request =
  req_Method :: string
  req_Path :: string
  req_RawQuery :: string
  req_Header :: Header
  req_Body :: "string option"

record ProxyRequest =
  preq_Method :: string
  preq_URL :: URL
  preq_Header :: Header
  preq_Body :: string

record Response =
  resp_StatusCode :: int
  resp_Header :: Header
  resp_Body :: string



text \<open>
  What \<open>gzip.NewReader\<close> and \<open>io.ReadAll\<close> make of a body: the header of the stream cannot
  be read, or the bytes that were read, with \<open>True\<close> when the read ended without an error
  (the handler drops that error).
\<close>

datatype gzip_outcome = GzipHeaderError | GzipRead string bool

text \<open>
  The library functions the proxy calls and this development does not define: the
  lower-casing of a string that is not ASCII, the JSON decoder (whether it accepts a body
  as an \<open>interface{}\<close>, and the map it leaves in a \<open>map[string]interface{}\<close>, empty when it
  leaves \<open>nil\<close>), the JSON encoder of a decoded value, the conversion to \<open>int\<close> of a
  \<open>float64\<close> beyond the range of \<open>int\<close>, the gzip reader, \<open>url.Parse\<close>, the error of
  \<open>http.NewRequest\<close>, and the error of \<open>net.Listen\<close>.
\<close>

record TraceWorld =
  toLowerUnicode :: "string \<Rightarrow> string"
  unmarshalAny :: "string \<Rightarrow> bool"
  unmarshalMap :: "string \<Rightarrow> json gomap"
  marshalValue :: "json \<Rightarrow> string option"
  floatToIntOverflow :: "real \<Rightarrow> int"
  gzipRead :: "string \<Rightarrow> gzip_outcome"
  urlParse :: "string \<Rightarrow> URL option"
  newRequestError :: "string \<Rightarrow> URL \<Rightarrow> string option"
  listenError :: "string option"

text \<open>
  What one request meets outside the proxy: the answer of the network to the request
  sent on (\<open>Inl\<close> a transport error), the time \<open>time.Since(startTime)\<close> reads when the
  response has been read, in nanoseconds, and the two readings of \<open>time.Now()\<close> in
  \<open>createTrace\<close>.
\<close>

record Exchange =
  roundTrip :: "ProxyRequest \<Rightarrow> string + Response"
  elapsed :: int
  idNanos :: int
  nowNanos :: int

subsection \<open>Headers\<close>

text \<open>
  \<open>textproto.CanonicalMIMEHeaderKey\<close>: a key of token bytes only gets an upper-case letter
  first and after each hyphen and lower-case letters elsewhere; any other key is left as
  it is. \<open>Get\<close>, \<open>Add\<close>, \<open>Del\<close> and \<open>Set\<close> of \<open>http.Header\<close> work on the canonical key.
\<close>

definition validHeaderFieldByte :: "char \<Rightarrow> bool" where
  "validHeaderFieldByte c =
     (let b = byteOf c in
      (48 \<le> b \<and> b \<le> 57) \<or> (65 \<le> b \<and> b \<le> 90) \<or> (97 \<le> b \<and> b \<le> 122)
      \<or> b \<in> set [33, 35, 36, 37, 38, 39, 42, 43, 45, 46, 94, 95, 96, 124, 126])"








text \<open>
  \<open>strings.ToLower\<close>: on a string of ASCII bytes the upper-case letters are mapped to lower
  case; a string with another byte goes through the Unicode tables.
\<close>

definition ToLower :: "TraceWorld \<Rightarrow> string \<Rightarrow> string" where
  "ToLower W s = (if list_all isASCII s then map toLowerASCII s else toLowerUnicode W s)"

definition flattenStep :: "TraceWorld \<Rightarrow> string gomap \<Rightarrow> string \<times> string list \<Rightarrow> string gomap" where
  "flattenStep W result entry =
     (case entry of (key, values) \<Rightarrow>
        (let lowerKey = ToLower W key
         in if lowerKey = ''authorization'' \<or> lowerKey = ''x-api-key'' \<or> lowerKey = ''api-key''
            then AList.update key ''[REDACTED]'' result
            else AList.update key (Join values '', '') result))"

definition flattenHeaders :: "TraceWorld \<Rightarrow> Header \<Rightarrow> string gomap" where
  "flattenHeaders W h = foldl (flattenStep W) [] h"

definition sanitizeBody :: "TraceWorld \<Rightarrow> string \<Rightarrow> string option" where
  "sanitizeBody W body =
     (if length body = 0 then None
      else if \<not> unmarshalAny W body then Some (appendString body)
      else Some body)"

subsection \<open>The details of a call\<close>

text \<open>
  The type assertions of the comma-ok form, on the value a map lookup gives (\<open>None\<close> for
  a missing key, where Go gives the \<open>nil\<close> interface): the asserted value, or \<open>None\<close>
  when the assertion does not hold. None of them panics.
\<close>

definition asString :: "json option \<Rightarrow> string option" where
  "asString v = (case v of Some (JString s) \<Rightarrow> Some s | _ \<Rightarrow> None)"

definition asFloat :: "json option \<Rightarrow> real option" where
  "asFloat v = (case v of Some (JNumber x) \<Rightarrow> Some x | _ \<Rightarrow> None)"

definition asMap :: "json option \<Rightarrow> json gomap option" where
  "asMap v = (case v of Some (JObject m) \<Rightarrow> Some m | _ \<Rightarrow> None)"

definition asSlice :: "json option \<Rightarrow> json list option" where
  "asSlice v = (case v of Some (JArray xs) \<Rightarrow> Some xs | _ \<Rightarrow> None)"

definition getString :: "json gomap \<Rightarrow> string \<Rightarrow> string" where
  "getString m key = (case asString (map_of m key) of Some v \<Rightarrow> v | None \<Rightarrow> [])"

text \<open>
  \<open>int(x)\<close> for a \<open>float64\<close>: the fraction is dropped; beyond the range of \<open>int\<close> the value
  depends on the machine and is never a panic.
\<close>

definition goInt :: "TraceWorld \<Rightarrow> real \<Rightarrow> int" where
  "goInt W x =
     (let t = (if 0 \<le> x then \<lfloor>x\<rfloor> else \<lceil>x\<rceil>)
      in if - (2 ^ 63) \<le> t \<and> t < 2 ^ 63 then t else floatToIntOverflow W x)"

text \<open>An index expression \<open>xs[i]\<close>: a panic when the index is out of range.\<close>

definition goIndex :: "'a list \<Rightarrow> nat \<Rightarrow> go_panic + 'a" where
  "goIndex xs i = (if i < length xs then Inr (xs ! i) else Inl IndexOutOfRange)"

text \<open>The token count under a key of the \<open>usage\<close> object, 0 when there is none.\<close>

definition usageTokens :: "TraceWorld \<Rightarrow> json gomap \<Rightarrow> string \<Rightarrow> int" where
  "usageTokens W respData key =
     (case asMap (map_of respData ''usage'') of
        Some usage \<Rightarrow> (case asFloat (map_of usage key) of Some n \<Rightarrow> goInt W n | None \<Rightarrow> 0)
      | None \<Rightarrow> 0)"

text \<open>The body of the loop over \<open>tool_calls\<close> of an OpenAI message.\<close>

definition openaiToolCall :: "json \<Rightarrow> ToolCall option" where
  "openaiToolCall tc =
     (case asMap (Some tc) of
        Some tcMap \<Rightarrow>
          Some (case asMap (map_of tcMap ''function'') of
                  Some fn \<Rightarrow>
                    \<lparr>tc_ID = getString tcMap ''id'', tc_Name = getString fn ''name'',
                     tc_Args = asString (map_of fn ''arguments''), tc_Response = None\<rparr>
                | None \<Rightarrow>
                    \<lparr>tc_ID = getString tcMap ''id'', tc_Name = [], tc_Args = None,
                     tc_Response = None\<rparr>)
      | None \<Rightarrow> None)"

text \<open>The body of the loop over \<open>content\<close> of an Anthropic response.\<close>

definition anthropicToolCall :: "TraceWorld \<Rightarrow> json \<Rightarrow> ToolCall option" where
  "anthropicToolCall W c =
     (case asMap (Some c) of
        Some cMap \<Rightarrow>
          if map_of cMap ''type'' = Some (JString ''tool_use'')
          then Some \<lparr>tc_ID = getString cMap ''id'', tc_Name = getString cMap ''name'',
                     tc_Args = (case map_of cMap ''input'' of
                                  Some input \<Rightarrow> marshalValue W input
                                | None \<Rightarrow> None),
                     tc_Response = None\<rparr>
          else None
      | None \<Rightarrow> None)"

text \<open>
  The tool calls of an OpenAI response: those of the message of the first choice. The
  index expression \<open>choices[0]\<close> is written as the operation that can panic.
\<close>

definition openaiToolCalls :: "json gomap \<Rightarrow> go_panic + ToolCall list" where
  "openaiToolCalls respData =
     (case asSlice (map_of respData ''choices'') of
        Some choices \<Rightarrow>
          if length choices > 0
          then (case goIndex choices 0 of
                  Inl p \<Rightarrow> Inl p
                | Inr first \<Rightarrow>
                    (case asMap (Some first) of
                       Some choice \<Rightarrow>
                         (case asMap (map_of choice ''message'') of
                            Some msg \<Rightarrow>
                              (case asSlice (map_of msg ''tool_calls'') of
                                 Some tcs \<Rightarrow> Inr (List.map_filter openaiToolCall tcs)
                               | None \<Rightarrow> Inr [])
                          | None \<Rightarrow> Inr [])
                     | None \<Rightarrow> Inr []))
          else Inr []
      | None \<Rightarrow> Inr [])"

definition anthropicToolCalls :: "TraceWorld \<Rightarrow> json gomap \<Rightarrow> ToolCall list" where
  "anthropicToolCalls W respData =
     (case asSlice (map_of respData ''content'') of
        Some content \<Rightarrow> List.map_filter (anthropicToolCall W) content
      | None \<Rightarrow> [])"

text \<open>
  \<open>parseAPIDetails\<close>: the model, the two token counts and the tool calls, or the panic
  that would end the handler.
\<close>

definition parseAPIDetails ::
  "TraceWorld \<Rightarrow> string \<Rightarrow> string \<Rightarrow> string \<Rightarrow> go_panic + (string \<times> int \<times> int \<times> ToolCall list)" where
  "parseAPIDetails W provider reqBody respBody =
     (let reqData = unmarshalMap W reqBody;
          respData = unmarshalMap W respBody;
          model = (case asString (map_of reqData ''model'') of Some m \<Rightarrow> m | None \<Rightarrow> [])
      in if provider = ''openai''
         then (case openaiToolCalls respData of
                 Inl p \<Rightarrow> Inl p
               | Inr toolCalls \<Rightarrow>
                   Inr (model, usageTokens W respData ''prompt_tokens'',
                        usageTokens W respData ''completion_tokens'', toolCalls))
         else if provider = ''anthropic''
         then Inr (model, usageTokens W respData ''input_tokens'',
                   usageTokens W respData ''output_tokens'', anthropicToolCalls W respData)
         else Inr (model, 0, 0, []))"

subsection \<open>The proxy\<close>

definition createTrace ::
  "TraceWorld \<Rightarrow> Exchange \<Rightarrow> string \<Rightarrow> Request \<Rightarrow> string \<Rightarrow> Response \<Rightarrow> string \<Rightarrow> int \<Rightarrow>
   go_panic + LLMTrace" where
  "createTrace W x provider req reqBody resp respBody latency =
     (case parseAPIDetails W provider reqBody respBody of
        Inl p \<Rightarrow> Inl p
      | Inr (model, tokensIn, tokensOut, toolCalls) \<Rightarrow>
          Inr \<lparr>trace_ID = Sprintf_d (idNanos x),
               trace_Timestamp = nowNanos x,
               trace_Provider = provider,
               trace_Endpoint = req_Path req,
               trace_Model = model,
               trace_Request =
                 \<lparr>treq_Method = req_Method req, treq_Path = req_Path req,
                  treq_Headers = flattenHeaders W (req_Header req),
                  treq_Body = sanitizeBody W reqBody\<rparr>,
               trace_Response =
                 \<lparr>tresp_StatusCode = resp_StatusCode resp,
                  tresp_Headers = flattenHeaders W (resp_Header resp),
                  tresp_Body = sanitizeBody W respBody\<rparr>,
               trace_Latency = latency sdiv 1000000,
               trace_ToolCalls = toolCalls,
               trace_TokensIn = tokensIn,
               trace_TokensOut = tokensOut,
               trace_Metadata = []\<rparr>)"



















section \<open>Reading JSON\<close>

text \<open>\<open>utf8.EncodeRune\<close>: the UTF-8 bytes of a code point, those of \<open>U+FFFD\<close> for a surrogate or a value that is no code point.\<close>

definition EncodeRune :: "int \<Rightarrow> string" where
  "EncodeRune r =
     (let c = (if r < 0 \<or> 0x10FFFF < r \<or> (0xD800 \<le> r \<and> r < 0xE000) then RuneError else r)
      in if c < 0x80 then [char_of c]
         else if c < 0x800 then [char_of (192 + c div 64), char_of (128 + c mod 64)]
         else if c < 0x10000
         then [char_of (224 + c div 4096), char_of (128 + (c div 64) mod 64), char_of (128 + c mod 64)]
         else [char_of (240 + c div 262144), char_of (128 + (c div 4096) mod 64),
               char_of (128 + (c div 64) mod 64), char_of (128 + c mod 64)])"


definition hexValue :: "char \<Rightarrow> int option" where
  "hexValue c =
     (let b = byteOf c in
      if 48 \<le> b \<and> b \<le> 57 then Some (b - 48)
      else if 97 \<le> b \<and> b \<le> 102 then Some (b - 87)
      else if 65 \<le> b \<and> b \<le> 70 then Some (b - 55)
      else None)"

definition hex4 :: "char \<Rightarrow> char \<Rightarrow> char \<Rightarrow> char \<Rightarrow> int option" where
  "hex4 a b c d =
     (case hexValue a of None \<Rightarrow> None | Some w \<Rightarrow>
      case hexValue b of None \<Rightarrow> None | Some x \<Rightarrow>
      case hexValue c of None \<Rightarrow> None | Some y \<Rightarrow>
      case hexValue d of None \<Rightarrow> None | Some z \<Rightarrow> Some (((w * 16 + x) * 16 + y) * 16 + z))"

definition simpleEscape :: "char \<Rightarrow> char option" where
  "simpleEscape e =
     (if e = CHR 0x22 \<or> e = CHR 0x5C \<or> e = CHR ''/'' then Some e
      else if e = CHR ''b'' then Some (CHR 0x08)
      else if e = CHR ''f'' then Some (CHR 0x0C)
      else if e = CHR ''n'' then Some (CHR 0x0A)
      else if e = CHR ''r'' then Some (CHR 0x0D)
      else if e = CHR ''t'' then Some (CHR 0x09)
      else None)"

definition prepend :: "string \<Rightarrow> (string \<times> string) option \<Rightarrow> (string \<times> string) option" where
  "prepend bytes r = (case r of None \<Rightarrow> None | Some (s, rest) \<Rightarrow> Some (bytes @ s, rest))"

text \<open>
  The reading of an escape after its backslash: the bytes it stands for and the text
  after it. A \<open>u\<close> escape of four hexadecimal digits stands for the UTF-8 bytes of its
  code point; a high surrogate followed by the \<open>u\<close> escape of a low surrogate stands for
  the code point of the pair, and any other surrogate for the replacement character, as
  Go reads it.
\<close>

definition lowSurrogate :: "string \<Rightarrow> (int \<times> string) option" where
  "lowSurrogate s =
     (case s of
        b1 # b2 # l1 # l2 # l3 # l4 # rest \<Rightarrow>
          if b1 = CHR 0x5C \<and> b2 = CHR ''u''
          then (case hex4 l1 l2 l3 l4 of
                  None \<Rightarrow> None
                | Some lo \<Rightarrow> if 0xDC00 \<le> lo \<and> lo < 0xE000 then Some (lo, rest) else None)
          else None
      | _ \<Rightarrow> None)"

definition unescape :: "string \<Rightarrow> (string \<times> string) option" where
  "unescape s =
     (case s of
        [] \<Rightarrow> None
      | e # es \<Rightarrow>
          if e = CHR ''u''
          then (case es of
                  h1 # h2 # h3 # h4 # rest \<Rightarrow>
                    (case hex4 h1 h2 h3 h4 of
                       None \<Rightarrow> None
                     | Some cp \<Rightarrow>
                         if 0xD800 \<le> cp \<and> cp < 0xDC00
                         then (case lowSurrogate rest of
                                 Some (lo, rest2) \<Rightarrow>
                                   Some (EncodeRune (0x10000 + (cp - 0xD800) * 1024 + (lo - 0xDC00)), rest2)
                               | None \<Rightarrow> Some (EncodeRune RuneError, rest))
                         else Some (EncodeRune cp, rest))
                | _ \<Rightarrow> None)
          else (case simpleEscape e of None \<Rightarrow> None | Some b \<Rightarrow> Some ([b], es)))"

lemma lowSurrogate_shorter: "lowSurrogate s = Some (lo, rest) \<Longrightarrow> length rest < length s"
  by (auto simp: lowSurrogate_def split: list.splits if_splits option.splits)

lemma unescape_shorter [termination_simp]:
  "unescape s = Some (bytes, rest) \<Longrightarrow> length rest < length s"
  by (auto simp: unescape_def split: list.splits if_splits option.splits dest!: lowSurrogate_shorter)

text \<open>
  The reading of a JSON string literal after its opening quote (RFC 8259): the bytes it
  stands for and what follows its closing quote. A backslash starts an escape; a byte
  below \<open>0x20\<close> is an error; every other byte stands for itself.
\<close>

fun unquoteFrom :: "string \<Rightarrow> (string \<times> string) option" where
  "unquoteFrom [] = None"
| "unquoteFrom (c # cs) =
     (if c = CHR 0x22 then Some ([], cs)
      else if c = CHR 0x5C
      then (case unescape cs of
              None \<Rightarrow> None
            | Some (bytes, rest) \<Rightarrow> prepend bytes (unquoteFrom rest))
      else if byteOf c < 32 then None
      else prepend [c] (unquoteFrom cs))"

lemma unquoteFrom_shorter [termination_simp]:
  "unquoteFrom cs = Some (str, rest) \<Longrightarrow> length rest < Suc (length cs)"
proof (induction cs arbitrary: str rest rule: unquoteFrom.induct)
  case 1
  then show ?case by simp
next
  case (2 c cs)
  show ?case
  proof (cases "c = CHR 0x22")
    case True
    with "2.prems" show ?thesis by simp
  next
    case nq: False
    show ?thesis
    proof (cases "c = CHR 0x5C")
      case True
      with nq "2.prems" obtain bytes r s where
        u: "unescape cs = Some (bytes, r)" and q: "unquoteFrom r = Some (s, rest)"
        by (auto simp: prepend_def split: option.splits)
      from "2.IH"(1) [OF nq True u refl q] have "length rest < Suc (length r)" .
      moreover from unescape_shorter [OF u] have "length r < length cs" .
      ultimately show ?thesis by simp
    next
      case False
      with nq "2.prems" obtain s where q: "unquoteFrom cs = Some (s, rest)" and c32: "\<not> byteOf c < 32"
        by (auto simp: prepend_def split: option.splits if_splits)
      from "2.IH"(2) [OF nq False c32 q] show ?thesis by simp
    qed
  qed
qed


section \<open>An example world\<close>

text \<open>
  A world to run the examples in. Its JSON decoder reads the grammar of RFC 8259 as
  \<open>encoding/json\<close> does (a later member of an object replaces an earlier one of the same
  name, a byte of a string that is not UTF-8 becomes the replacement character), with
  two limits: a number is read exactly, with neither the rounding nor the range of a
  \<open>float64\<close>, and the nesting depth is not bounded.
\<close>

datatype token =
  TLBrace | TRBrace | TLBracket | TRBracket | TColon | TComma
  | TString string | TNumber real | TTrue | TFalse | TNull

fun coerceUTF8 :: "string \<Rightarrow> string" where
  "coerceUTF8 [] = []"
| "coerceUTF8 (b # bs) =
     (if byteOf b < 128 then b # coerceUTF8 bs
      else (case DecodeRune (b # bs) of (c, width) \<Rightarrow>
        if c = RuneError \<and> width = 1 then EncodeRune RuneError @ coerceUTF8 bs
        else b # take (width - 1) bs @ coerceUTF8 (drop (width - 1) bs)))"

definition isDigit :: "char \<Rightarrow> bool" where
  "isDigit c = (48 \<le> byteOf c \<and> byteOf c \<le> 57)"

definition isNumberChar :: "char \<Rightarrow> bool" where
  "isNumberChar c = (isDigit c \<or> c = CHR ''+'' \<or> c = CHR ''-'' \<or> c = CHR ''.'' \<or> c = CHR ''e'' \<or> c = CHR ''E'')"

definition isSpace :: "char \<Rightarrow> bool" where
  "isSpace c = (c = CHR '' '' \<or> c = CHR 0x09 \<or> c = CHR 0x0A \<or> c = CHR 0x0D)"

definition digitsValue :: "string \<Rightarrow> int" where
  "digitsValue ds = foldl (\<lambda>n d. n * 10 + (byteOf d - 48)) 0 ds"

text \<open>The value of a number literal, \<open>None\<close> when the text is not one.\<close>

definition parseNumber :: "string \<Rightarrow> real option" where
  "parseNumber lit =
     (let neg = (lit \<noteq> [] \<and> hd lit = CHR ''-'');
          s1 = (if neg then tl lit else lit);
          ip = takeWhile isDigit s1;
          s2 = dropWhile isDigit s1;
          hasFrac = (s2 \<noteq> [] \<and> hd s2 = CHR ''.'');
          fp = (if hasFrac then takeWhile isDigit (tl s2) else []);
          s3 = (if hasFrac then dropWhile isDigit (tl s2) else s2);
          hasExp = (s3 \<noteq> [] \<and> (hd s3 = CHR ''e'' \<or> hd s3 = CHR ''E''));
          s4 = (if hasExp then tl s3 else s3);
          hasSign = (hasExp \<and> s4 \<noteq> [] \<and> (hd s4 = CHR ''-'' \<or> hd s4 = CHR ''+''));
          expNeg = (hasSign \<and> hd s4 = CHR ''-'');
          s5 = (if hasSign then tl s4 else s4);
          ep = (if hasExp then takeWhile isDigit s5 else []);
          s6 = (if hasExp then dropWhile isDigit s5 else s5);
          wellFormed = (ip \<noteq> [] \<and> (length ip = 1 \<or> hd ip \<noteq> CHR ''0'')
                        \<and> (if hasFrac then fp \<noteq> [] else True)
                        \<and> (if hasExp then ep \<noteq> [] else True) \<and> s6 = []);
          mantissa = digitsValue (ip @ fp);
          e10 = (if expNeg then - digitsValue ep else digitsValue ep) - int (length fp);
          v = (if 0 \<le> e10 then of_int (mantissa * 10 ^ nat e10)
               else of_int mantissa / of_int (10 ^ nat (- e10)))
      in if wellFormed then Some (if neg then - v else v) else None)"

definition consToken :: "token \<Rightarrow> token list option \<Rightarrow> token list option" where
  "consToken t r = (case r of None \<Rightarrow> None | Some ts \<Rightarrow> Some (t # ts))"

text \<open>The first token of a text that is not empty (\<open>None\<close> for white space) and the text after it.\<close>

definition keyword :: "string \<Rightarrow> token \<Rightarrow> string \<Rightarrow> (token option \<times> string) option" where
  "keyword w t cs = (if take (length w) cs = w then Some (Some t, drop (length w) cs) else None)"

definition nextToken :: "char \<Rightarrow> string \<Rightarrow> (token option \<times> string) option" where
  "nextToken c cs =
     (if isSpace c then Some (None, cs)
      else if c = CHR ''{'' then Some (Some TLBrace, cs)
      else if c = CHR ''}'' then Some (Some TRBrace, cs)
      else if c = CHR ''['' then Some (Some TLBracket, cs)
      else if c = CHR '']'' then Some (Some TRBracket, cs)
      else if c = CHR '':'' then Some (Some TColon, cs)
      else if c = CHR '','' then Some (Some TComma, cs)
      else if c = CHR 0x22
      then (case unquoteFrom cs of
              None \<Rightarrow> None
            | Some (str, rest) \<Rightarrow> Some (Some (TString (coerceUTF8 str)), rest))
      else if c = CHR ''t'' then keyword ''rue'' TTrue cs
      else if c = CHR ''f'' then keyword ''alse'' TFalse cs
      else if c = CHR ''n'' then keyword ''ull'' TNull cs
      else if c = CHR ''-'' \<or> isDigit c
      then (case parseNumber (c # takeWhile isNumberChar cs) of
              None \<Rightarrow> None
            | Some x \<Rightarrow> Some (Some (TNumber x), dropWhile isNumberChar cs))
      else None)"

lemma keyword_shorter: "keyword w t cs = Some (r, rest) \<Longrightarrow> length rest < Suc (length cs)"
  by (auto simp: keyword_def split: if_splits)

lemma nextToken_shorter [termination_simp]:
  assumes "nextToken c cs = Some (t, rest)"
  shows "length rest < Suc (length cs)"
proof -
  have d: "length (dropWhile isNumberChar cs) < Suc (length cs)"
    by (simp add: length_dropWhile_le less_Suc_eq_le)
  consider (same) "rest = cs"
    | (str) str where "unquoteFrom cs = Some (str, rest)"
    | (kw) w k r where "keyword w k cs = Some (r, rest)"
    | (num) "rest = dropWhile isNumberChar cs"
    using assms unfolding nextToken_def
    by (auto split: if_splits option.splits)
  then show ?thesis
  proof cases
    case same
    then show ?thesis by simp
  next
    case str
    then show ?thesis by (rule unquoteFrom_shorter)
  next
    case kw
    then show ?thesis by (rule keyword_shorter)
  next
    case num
    with d show ?thesis by simp
  qed
qed

fun lexJSON :: "string \<Rightarrow> token list option" where
  "lexJSON [] = Some []"
| "lexJSON (c # cs) =
     (case nextToken c cs of
        None \<Rightarrow> None
      | Some (t, rest) \<Rightarrow>
          (case t of None \<Rightarrow> lexJSON rest | Some tok \<Rightarrow> consToken tok (lexJSON rest)))"

text \<open>
  The parser of the tokens: a stack of the arrays and objects that are open (an object
  with the name that waits for its value), and what may come next.
\<close>

datatype container = InArray "json list" | InObject "(string \<times> json) list" "string option"

datatype expect = AValue | AValueOrClose | AKeyOrClose | AKey | AColon | ACommaOrClose | AtEnd

definition scalar :: "token \<Rightarrow> json option" where
  "scalar t =
     (case t of
        TString s \<Rightarrow> Some (JString s)
      | TNumber x \<Rightarrow> Some (JNumber x)
      | TTrue \<Rightarrow> Some (JBool True)
      | TFalse \<Rightarrow> Some (JBool False)
      | TNull \<Rightarrow> Some JNull
      | _ \<Rightarrow> None)"

text \<open>A complete value goes to the container on top of the stack, or is the result.\<close>

definition pushValue :: "json \<Rightarrow> container list \<Rightarrow> (expect \<times> container list \<times> json option) option" where
  "pushValue v stack =
     (case stack of
        [] \<Rightarrow> Some (AtEnd, [], Some v)
      | InArray items # below \<Rightarrow> Some (ACommaOrClose, InArray (items @ [v]) # below, None)
      | InObject members (Some k) # below \<Rightarrow>
          Some (ACommaOrClose, InObject (AList.update k v members) None # below, None)
      | InObject members None # below \<Rightarrow> None)"

definition closeContainer :: "container list \<Rightarrow> (expect \<times> container list \<times> json option) option" where
  "closeContainer stack =
     (case stack of
        InArray items # below \<Rightarrow> pushValue (JArray items) below
      | InObject members None # below \<Rightarrow> pushValue (JObject members) below
      | _ \<Rightarrow> None)"

definition parseStep ::
  "expect \<Rightarrow> container list \<Rightarrow> token \<Rightarrow> (expect \<times> container list \<times> json option) option" where
  "parseStep e stack t =
     (if e = AValue \<or> e = AValueOrClose
      then (if t = TLBracket then Some (AValueOrClose, InArray [] # stack, None)
            else if t = TLBrace then Some (AKeyOrClose, InObject [] None # stack, None)
            else if t = TRBracket then (if e = AValueOrClose then closeContainer stack else None)
            else (case scalar t of None \<Rightarrow> None | Some v \<Rightarrow> pushValue v stack))
      else if e = AKeyOrClose \<or> e = AKey
      then (case t of
              TString k \<Rightarrow>
                (case stack of
                   InObject members None # below \<Rightarrow> Some (AColon, InObject members (Some k) # below, None)
                 | _ \<Rightarrow> None)
            | TRBrace \<Rightarrow> if e = AKeyOrClose then closeContainer stack else None
            | _ \<Rightarrow> None)
      else if e = AColon then (if t = TColon then Some (AValue, stack, None) else None)
      else if e = ACommaOrClose
      then (case stack of
              InArray items # below \<Rightarrow>
                if t = TComma then Some (AValue, stack, None)
                else if t = TRBracket then closeContainer stack
                else None
            | InObject members pending # below \<Rightarrow>
                if t = TComma then Some (AKey, stack, None)
                else if t = TRBrace then closeContainer stack
                else None
            | [] \<Rightarrow> None)
      else None)"

fun parseTokens :: "expect \<Rightarrow> container list \<Rightarrow> json option \<Rightarrow> token list \<Rightarrow> json option" where
  "parseTokens e stack result [] = (if e = AtEnd then result else None)"
| "parseTokens e stack result (t # ts) =
     (case parseStep e stack t of
        None \<Rightarrow> None
      | Some (e', stack', result') \<Rightarrow> parseTokens e' stack' result' ts)"

definition decodeJSON :: "string \<Rightarrow> json option" where
  "decodeJSON s = (case lexJSON s of None \<Rightarrow> None | Some ts \<Rightarrow> parseTokens AValue [] None ts)"

text \<open>
  \<open>json.Marshal\<close> of a decoded value: the members of an object in the order of their
  names, strings as \<open>appendString\<close> writes them. A number that is not an integer below
  \<open>2^53\<close> is beyond this world (it gives \<open>None\<close>, where Go writes the shortest decimal
  form of the \<open>float64\<close>); no example has one.
\<close>

fun bytesLessEq :: "string \<Rightarrow> string \<Rightarrow> bool" where
  "bytesLessEq [] ys = True"
| "bytesLessEq (x # xs) [] = False"
| "bytesLessEq (x # xs) (y # ys) = (byteOf x < byteOf y \<or> (x = y \<and> bytesLessEq xs ys))"

fun insertMember :: "string \<times> string \<Rightarrow> (string \<times> string) list \<Rightarrow> (string \<times> string) list" where
  "insertMember m [] = [m]"
| "insertMember m (n # ns) = (if bytesLessEq (fst m) (fst n) then m # n # ns else n # insertMember m ns)"

definition sortMembers :: "(string \<times> string) list \<Rightarrow> (string \<times> string) list" where
  "sortMembers ms = foldr insertMember ms []"

fun encodeJSON :: "json \<Rightarrow> string option"
  and encodeItems :: "json list \<Rightarrow> string list option"
  and encodeMembers :: "(string \<times> json) list \<Rightarrow> (string \<times> string) list option" where
  "encodeJSON JNull = Some ''null''"
| "encodeJSON (JBool b) = Some (if b then ''true'' else ''false'')"
| "encodeJSON (JNumber x) =
     (if x = of_int \<lfloor>x\<rfloor> \<and> \<bar>x\<bar> < 2 ^ 53 then Some (Sprintf_d \<lfloor>x\<rfloor>) else None)"
| "encodeJSON (JString s) = Some (appendString s)"
| "encodeJSON (JArray xs) =
     (case encodeItems xs of None \<Rightarrow> None | Some parts \<Rightarrow> Some (''['' @ Join parts '','' @ '']''))"
| "encodeJSON (JObject ms) =
     (case encodeMembers ms of
        None \<Rightarrow> None
      | Some parts \<Rightarrow>
          Some (''{'' @ Join (map (\<lambda>m. appendString (fst m) @ '':'' @ snd m) (sortMembers parts)) '','' @ ''}''))"
| "encodeItems [] = Some []"
| "encodeItems (x # xs) =
     (case encodeJSON x of
        None \<Rightarrow> None
      | Some a \<Rightarrow> (case encodeItems xs of None \<Rightarrow> None | Some as \<Rightarrow> Some (a # as)))"
| "encodeMembers [] = Some []"
| "encodeMembers (m # ms) =
     (case encodeJSON (snd m) of
        None \<Rightarrow> None
      | Some a \<Rightarrow> (case encodeMembers ms of None \<Rightarrow> None | Some as \<Rightarrow> Some ((fst m, a) # as)))"

text \<open>
  The gzip reader of the example world knows one stream, the gzip form of an 11-byte
  JSON text; a body without the magic bytes of gzip is a header error, as it is for
  \<open>gzip.NewReader\<close>.
\<close>

definition okGzip :: string where
  "okGzip =
     [CHR 0x1F, CHR 0x8B, CHR 0x08, CHR 0x00, CHR 0x00, CHR 0x00, CHR 0x00, CHR 0x00, CHR 0x02,
      CHR 0xFF, CHR 0xAB, CHR 0x56, CHR 0xCA, CHR 0xCF, CHR 0x56, CHR 0xB2, CHR 0x2A, CHR 0x29,
      CHR 0x2A, CHR 0x4D, CHR 0xAD, CHR 0x05, CHR 0x00, CHR 0x90, CHR 0x5F, CHR 0xD4, CHR 0xA7,
      CHR 0x0B, CHR 0x00, CHR 0x00, CHR 0x00]"

definition exampleGzip :: "string \<Rightarrow> gzip_outcome" where
  "exampleGzip body =
     (if length body < 10 \<or> take 3 body \<noteq> [CHR 0x1F, CHR 0x8B, CHR 0x08] then GzipHeaderError
      else if body = okGzip then GzipRead ''{\"ok\":true}'' True
      else GzipRead [] False)"

definition exampleUrlParse :: "string \<Rightarrow> URL option" where
  "exampleUrlParse s =
     (if s = ''http://localhost:8000/v1''
      then Some \<lparr>url_Scheme = ''http'', url_Host = ''localhost:8000'', url_Path = ''/v1'',
                 url_RawQuery = []\<rparr>
      else None)"

text \<open>
  The example world: the decoder and encoder above; strings that are not ASCII keep
  their other bytes when lower-cased (no example has one); a \<open>float64\<close> beyond the range
  of \<open>int\<close> converts to the least \<open>int\<close>, as on amd64; \<open>http.NewRequest\<close> refuses a
  method that is not a token; the listener starts.
\<close>

definition exampleWorld :: TraceWorld where
  "exampleWorld =
     \<lparr>toLowerUnicode = map toLowerASCII,
      unmarshalAny = (\<lambda>body. decodeJSON body \<noteq> None),
      unmarshalMap = (\<lambda>body. case decodeJSON body of Some (JObject m) \<Rightarrow> m | _ \<Rightarrow> []),
      marshalValue = encodeJSON,
      floatToIntOverflow = (\<lambda>x. - (2 ^ 63)),
      gzipRead = exampleGzip,
      urlParse = exampleUrlParse,
      newRequestError =
        (\<lambda>m u. if m \<noteq> [] \<and> list_all validHeaderFieldByte m then None
                else Some ''net/http: invalid method''),
      listenError = None\<rparr>"






definition usageResponse :: Response where
  "usageResponse =
     \<lparr>resp_StatusCode = 200,
      resp_Header = [(''Content-Type'', [''application/json''])],
      resp_Body = ''{\"usage\": {\"prompt_tokens\": 10, \"completion_tokens\": 5}}''\<rparr>"






section \<open>Properties of the comparison\<close>

lemma map_of_foldl_update:
  "map_of (foldl (\<lambda>m tr. AList.update (Name tr) tr m) acc trs) =
   map_of acc ++ map_of (rev (map (\<lambda>tr. (Name tr, tr)) trs))"
proof (induction trs arbitrary: acc)
  case Nil
  show ?case by simp
next
  case (Cons tr trs)
  have "map_of (AList.update (Name tr) tr acc) ++ map_of (rev (map (\<lambda>tr. (Name tr, tr)) trs)) =
        map_of acc ++ ([Name tr \<mapsto> tr] ++ map_of (rev (map (\<lambda>tr. (Name tr, tr)) trs)))"
    by (rule ext) (simp add: update_conv' map_add_def split: option.splits)
  with Cons show ?case by simp
qed

lemma distinct_foldl_update:
  "distinct (map fst acc) \<Longrightarrow>
   distinct (map fst (foldl (\<lambda>m tr. AList.update (Name tr) tr m) acc trs))"
  by (induction trs arbitrary: acc) (simp_all add: distinct_update)

lemma keys_foldl_update:
  "fst ` set (foldl (\<lambda>m tr. AList.update (Name tr) tr m) acc trs) = fst ` set acc \<union> Name ` set trs"
  by (induction trs arbitrary: acc) (auto simp: dom_update)

lemma indexResults_last_wins:
  "map_of (indexResults trs) = map_of (rev (map (\<lambda>tr. (Name tr, tr)) trs))"
  by (simp add: indexResults_def map_of_foldl_update)

lemma distinct_indexResults: "distinct (map fst (indexResults trs))"
  by (simp add: indexResults_def distinct_foldl_update)

lemma keys_indexResults: "fst ` set (indexResults trs) = Name ` set trs"
  by (simp add: indexResults_def keys_foldl_update)

lemma indexResults_dom: "(map_of (indexResults trs) name = None) = (name \<notin> Name ` set trs)"
  by (simp add: map_of_eq_None_iff keys_indexResults)

lemma statusOf_None: "(statusOf trs name = None) = (name \<notin> Name ` set trs)"
  by (simp add: statusOf_def indexResults_dom)

lemma classifyCurrent_step:
  "classifyCurrent B c e =
     c\<lparr>NewFailures := NewFailures c @ (if isNewFailure B e then [fst e] else []),
       NewPasses := NewPasses c @ (if isNewPass B e then [fst e] else []),
       AddedTests := AddedTests c @ (if map_of B (fst e) = None then [fst e] else [])\<rparr>"
  by (cases e) (simp add: classifyCurrent_def isNewFailure_def isNewPass_def split: option.splits)

lemma classifyRemoved_step:
  "classifyRemoved C c e =
     c\<lparr>RemovedTests := RemovedTests c @ (if map_of C (fst e) = None then [fst e] else [])\<rparr>"
  by (simp add: classifyRemoved_def split: option.splits)

lemma foldl_classifyCurrent:
  "foldl (classifyCurrent B) c es =
     c\<lparr>NewFailures := NewFailures c @ map fst (filter (isNewFailure B) es),
       NewPasses := NewPasses c @ map fst (filter (isNewPass B) es),
       AddedTests := AddedTests c @ map fst (filter (\<lambda>e. map_of B (fst e) = None) es)\<rparr>"
proof (induction es arbitrary: c)
  case Nil
  show ?case by simp
next
  case (Cons e es)
  have "foldl (classifyCurrent B) c (e # es) = foldl (classifyCurrent B) (classifyCurrent B c e) es"
    by simp
  also note Cons.IH [of "classifyCurrent B c e"]
  finally show ?case
    by (simp add: classifyCurrent_step [of B c e])
qed

lemma foldl_classifyRemoved:
  "foldl (classifyRemoved C) c es =
     c\<lparr>RemovedTests := RemovedTests c @ map fst (filter (\<lambda>e. map_of C (fst e) = None) es)\<rparr>"
proof (induction es arbitrary: c)
  case Nil
  show ?case by simp
next
  case (Cons e es)
  have "foldl (classifyRemoved C) c (e # es) = foldl (classifyRemoved C) (classifyRemoved C c e) es"
    by simp
  also note Cons.IH [of "classifyRemoved C c e"]
  finally show ?case
    by (simp add: classifyRemoved_step [of C c e])
qed

lemma compare_Loaded:
  "compareWithBaselineResults current (Loaded baseline) =
     \<lparr>BaselineDate = Timestamp baseline,
      NewFailures = map fst (filter (isNewFailure (indexResults (TestResults baseline))) (indexResults (TestResults current))),
      NewPasses = map fst (filter (isNewPass (indexResults (TestResults baseline))) (indexResults (TestResults current))),
      RemovedTests = map fst (filter (\<lambda>e. map_of (indexResults (TestResults current)) (fst e) = None) (indexResults (TestResults baseline))),
      AddedTests = map fst (filter (\<lambda>e. map_of (indexResults (TestResults baseline)) (fst e) = None) (indexResults (TestResults current))),
      BehaviorChanges = []\<rparr>"
  by (simp add: compareWithBaselineResults_def Let_def foldl_classifyCurrent foldl_classifyRemoved emptyComparison_def)

lemma distinct_map_fst_filter: "distinct (map fst es) \<Longrightarrow> distinct (map fst (filter P es))"
  by (induction es) auto

lemma mem_map_fst_filter:
  "distinct (map fst es) \<Longrightarrow>
   (n \<in> set (map fst (filter P es))) = (\<exists>v. map_of es n = Some v \<and> P (n, v))"
  by (induction es) (auto simp: rev_image_eqI)

lemma statusOf_Some:
  "(statusOf trs n = Some s) = (\<exists>tr. map_of (indexResults trs) n = Some tr \<and> Status tr = s)"
  by (auto simp: statusOf_def)

text \<open>
  Claim C1, as the code has it. For every baseline that loads and every current run, and
  every name \<open>n\<close>: \<open>n\<close> is an added test exactly when it is a name of the current results
  and not of the baseline's; a removed test exactly when it is a name of the baseline's
  results and not of the current ones; a new failure exactly when its baseline status is
  \<open>passed\<close> and its current status is \<open>failed\<close>; a new pass exactly when its baseline
  status is \<open>failed\<close> and its current status is \<open>passed\<close>; and no list holds a name
  twice. So the four lists are pairwise disjoint, a name in one result list only is in
  exactly one of added and removed, and a name in both lists whose two statuses are
  neither \<open>passed\<close> then \<open>failed\<close> nor \<open>failed\<close> then \<open>passed\<close> (equal statuses, or a
  pair with the third status \<open>error\<close>) is in none of the four.
\<close>

theorem compare_classification:
  "(n \<in> set (AddedTests (compareWithBaselineResults current (Loaded baseline)))) =
     (n \<in> Name ` set (TestResults current) \<and> n \<notin> Name ` set (TestResults baseline))
   \<and> (n \<in> set (RemovedTests (compareWithBaselineResults current (Loaded baseline)))) =
     (n \<in> Name ` set (TestResults baseline) \<and> n \<notin> Name ` set (TestResults current))
   \<and> (n \<in> set (NewFailures (compareWithBaselineResults current (Loaded baseline)))) =
     (statusOf (TestResults baseline) n = Some ''passed'' \<and>
      statusOf (TestResults current) n = Some ''failed'')
   \<and> (n \<in> set (NewPasses (compareWithBaselineResults current (Loaded baseline)))) =
     (statusOf (TestResults baseline) n = Some ''failed'' \<and>
      statusOf (TestResults current) n = Some ''passed'')
   \<and> distinct (AddedTests (compareWithBaselineResults current (Loaded baseline)))
   \<and> distinct (RemovedTests (compareWithBaselineResults current (Loaded baseline)))
   \<and> distinct (NewFailures (compareWithBaselineResults current (Loaded baseline)))
   \<and> distinct (NewPasses (compareWithBaselineResults current (Loaded baseline)))"
proof -
  let ?B = "indexResults (TestResults baseline)"
  let ?C = "indexResults (TestResults current)"
  have dB: "distinct (map fst ?B)" and dC: "distinct (map fst ?C)"
    by (rule distinct_indexResults)+
  have inB: "\<And>m. (map_of ?B m = None) = (m \<notin> Name ` set (TestResults baseline))"
    by (rule indexResults_dom)
  have inC: "\<And>m. (map_of ?C m = None) = (m \<notin> Name ` set (TestResults current))"
    by (rule indexResults_dom)
  have added: "(n \<in> set (map fst (filter (\<lambda>e. map_of ?B (fst e) = None) ?C))) =
      (n \<in> Name ` set (TestResults current) \<and> n \<notin> Name ` set (TestResults baseline))"
    unfolding mem_map_fst_filter [OF dC] using inB [of n] inC [of n]
    by (cases "map_of ?C n") auto
  have removed: "(n \<in> set (map fst (filter (\<lambda>e. map_of ?C (fst e) = None) ?B))) =
      (n \<in> Name ` set (TestResults baseline) \<and> n \<notin> Name ` set (TestResults current))"
    unfolding mem_map_fst_filter [OF dB] using inB [of n] inC [of n]
    by (cases "map_of ?B n") auto
  have failures: "(n \<in> set (map fst (filter (isNewFailure ?B) ?C))) =
      (statusOf (TestResults baseline) n = Some ''passed'' \<and>
       statusOf (TestResults current) n = Some ''failed'')"
    unfolding mem_map_fst_filter [OF dC]
    by (auto simp: isNewFailure_def statusOf_Some split: option.splits)
  have passes: "(n \<in> set (map fst (filter (isNewPass ?B) ?C))) =
      (statusOf (TestResults baseline) n = Some ''failed'' \<and>
       statusOf (TestResults current) n = Some ''passed'')"
    unfolding mem_map_fst_filter [OF dC]
    by (auto simp: isNewPass_def statusOf_Some split: option.splits)
  show ?thesis
    unfolding compare_Loaded
    using added removed failures passes
    by (simp add: distinct_map_fst_filter dB dC)
qed

text \<open>
  The scenario of the specification: the baseline has \<open>A\<close> and \<open>B\<close> passed, the current
  run has \<open>A\<close> passed, \<open>B\<close> failed and a new test \<open>C\<close> passed. \<open>B\<close> is a new failure and
  nothing else, \<open>C\<close> is an added test.
\<close>

theorem compare_classification_witness:
  "''B'' \<in> set (NewFailures (compareWithBaselineResults
       (mkEval [mkResult ''A'' ''passed'', mkResult ''B'' ''failed'', mkResult ''C'' ''passed''])
       (Loaded (mkEval [mkResult ''A'' ''passed'', mkResult ''B'' ''passed'']))))
   \<and> ''B'' \<notin> set (NewPasses (compareWithBaselineResults
       (mkEval [mkResult ''A'' ''passed'', mkResult ''B'' ''failed'', mkResult ''C'' ''passed''])
       (Loaded (mkEval [mkResult ''A'' ''passed'', mkResult ''B'' ''passed'']))))
   \<and> ''B'' \<notin> set (AddedTests (compareWithBaselineResults
       (mkEval [mkResult ''A'' ''passed'', mkResult ''B'' ''failed'', mkResult ''C'' ''passed''])
       (Loaded (mkEval [mkResult ''A'' ''passed'', mkResult ''B'' ''passed'']))))
   \<and> ''B'' \<notin> set (RemovedTests (compareWithBaselineResults
       (mkEval [mkResult ''A'' ''passed'', mkResult ''B'' ''failed'', mkResult ''C'' ''passed''])
       (Loaded (mkEval [mkResult ''A'' ''passed'', mkResult ''B'' ''passed'']))))"
  using compare_classification [of "''B''"
      "mkEval [mkResult ''A'' ''passed'', mkResult ''B'' ''failed'', mkResult ''C'' ''passed'']"
      "mkEval [mkResult ''A'' ''passed'', mkResult ''B'' ''passed'']"]
  by (simp add: statusOf_def indexResults_def mkResult_def mkEval_def)

text \<open>
  Claim C1 as it is written fails: it puts every name of both lists whose statuses differ
  in exactly one of the new failures and the new passes. A test whose baseline status is
  \<open>error\<close> (the third status of a \<open>TestResult\<close>) and which passes now has two different
  statuses and is in neither list.
\<close>

theorem compare_error_status_counterexample:
  "statusOf [mkResult ''A'' ''error''] ''A'' = Some ''error''
   \<and> statusOf [mkResult ''A'' ''passed''] ''A'' = Some ''passed''
   \<and> ''A'' \<notin> set (NewFailures (compareWithBaselineResults (mkEval [mkResult ''A'' ''passed''])
          (Loaded (mkEval [mkResult ''A'' ''error'']))))
   \<and> ''A'' \<notin> set (NewPasses (compareWithBaselineResults (mkEval [mkResult ''A'' ''passed''])
          (Loaded (mkEval [mkResult ''A'' ''error'']))))"
  by (simp add: compareWithBaselineResults_def indexResults_def classifyCurrent_def
      classifyRemoved_def emptyComparison_def mkEval_def mkResult_def statusOf_def)

text \<open>
  Claim C6. Comparing an eval result with itself as the loaded baseline gives no new
  failure, no new pass, no added test and no removed test.
\<close>

theorem compare_with_itself:
  "NewFailures (compareWithBaselineResults r (Loaded r)) = []
   \<and> NewPasses (compareWithBaselineResults r (Loaded r)) = []
   \<and> AddedTests (compareWithBaselineResults r (Loaded r)) = []
   \<and> RemovedTests (compareWithBaselineResults r (Loaded r)) = []"
proof -
  let ?I = "indexResults (TestResults r)"
  have own: "map_of ?I (fst e) = Some (snd e)" if "e \<in> set ?I" for e
    using that distinct_indexResults [of "TestResults r"] by (metis map_of_is_SomeI prod.collapse)
  have "filter (isNewFailure ?I) ?I = []"
    by (auto simp: filter_empty_conv isNewFailure_def own)
  moreover have "filter (isNewPass ?I) ?I = []"
    by (auto simp: filter_empty_conv isNewPass_def own)
  moreover have "filter (\<lambda>e. map_of ?I (fst e) = None) ?I = []"
    by (auto simp: filter_empty_conv own)
  ultimately show ?thesis
    by (simp add: compare_Loaded)
qed

theorem compare_with_itself_witness:
  "NewFailures (compareWithBaselineResults
       (mkEval [mkResult ''A'' ''passed'', mkResult ''B'' ''failed''])
       (Loaded (mkEval [mkResult ''A'' ''passed'', mkResult ''B'' ''failed'']))) = []
   \<and> NewPasses (compareWithBaselineResults
       (mkEval [mkResult ''A'' ''passed'', mkResult ''B'' ''failed''])
       (Loaded (mkEval [mkResult ''A'' ''passed'', mkResult ''B'' ''failed'']))) = []
   \<and> AddedTests (compareWithBaselineResults
       (mkEval [mkResult ''A'' ''passed'', mkResult ''B'' ''failed''])
       (Loaded (mkEval [mkResult ''A'' ''passed'', mkResult ''B'' ''failed'']))) = []
   \<and> RemovedTests (compareWithBaselineResults
       (mkEval [mkResult ''A'' ''passed'', mkResult ''B'' ''failed''])
       (Loaded (mkEval [mkResult ''A'' ''passed'', mkResult ''B'' ''failed'']))) = []"
  by (rule compare_with_itself)











section \<open>Properties of the stored trace\<close>













text \<open>
  Claim C10. \<open>sanitizeBody\<close> maps the empty body to \<open>nil\<close>, and a trace made from an empty
  request body or an empty response body has no stored body there.
\<close>

theorem empty_body_not_stored:
  "sanitizeBody W [] = None
   \<and> (createTrace W x provider req [] resp respBody latency = Inr t \<longrightarrow>
        treq_Body (trace_Request t) = None)
   \<and> (createTrace W x provider req reqBody resp [] latency = Inr t \<longrightarrow>
        tresp_Body (trace_Response t) = None)"
  by (auto simp: sanitizeBody_def createTrace_def split: sum.splits)

theorem empty_body_not_stored_witness:
  "sanitizeBody exampleWorld [] = None"
  using empty_body_not_stored [of exampleWorld] by blast

lemma openaiToolCalls_total: "\<exists>tcs. openaiToolCalls respData = Inr tcs"
  by (simp add: openaiToolCalls_def goIndex_def split: option.splits)

lemma parseAPIDetails_total: "\<exists>d. parseAPIDetails W provider reqBody respBody = Inr d"
proof -
  obtain tcs where "openaiToolCalls (unmarshalMap W respBody) = Inr tcs"
    using openaiToolCalls_total by blast
  then show ?thesis by (simp add: parseAPIDetails_def Let_def)
qed

text \<open>
  Claim C9. \<open>parseAPIDetails\<close> returns on every provider name, request body and response
  body, without a panic; for a provider that is neither \<open>openai\<close> nor \<open>anthropic\<close> the token
  counts are 0 and there is no tool call, and the model is the string under \<open>model\<close> of the
  request body (empty when there is none), as it is for every provider.
\<close>

theorem parseAPIDetails_unknown_provider:
  "(\<exists>d. parseAPIDetails W provider reqBody respBody = Inr d)
   \<and> (provider \<noteq> ''openai'' \<and> provider \<noteq> ''anthropic'' \<longrightarrow>
        parseAPIDetails W provider reqBody respBody =
          Inr (case asString (map_of (unmarshalMap W reqBody) ''model'') of Some m \<Rightarrow> m | None \<Rightarrow> [],
               0, 0, []))"
  using parseAPIDetails_total [of W provider reqBody respBody]
  by (simp add: parseAPIDetails_def Let_def)

theorem parseAPIDetails_unknown_provider_witness:
  "parseAPIDetails exampleWorld ''custom'' ''not json'' (resp_Body usageResponse) = Inr ([], 0, 0, [])"
proof -
  have p: "''custom'' \<noteq> ''openai'' \<and> ''custom'' \<noteq> ''anthropic''" by simp
  have m: "(case asString (map_of (unmarshalMap exampleWorld ''not json'') ''model'') of
              Some m \<Rightarrow> m | None \<Rightarrow> []) = []"
    by code_simp
  from parseAPIDetails_unknown_provider [of exampleWorld "''custom''" "''not json''" "resp_Body usageResponse"] p m
  show ?thesis by simp
qed

theorem unknown_provider_model_counterexample:
  "parseAPIDetails exampleWorld ''custom'' ''{\"model\":\"gpt-4\"}'' [] = Inr (''gpt-4'', 0, 0, [])"
  by code_simp

lemma openai_scenario:
  "parseAPIDetails exampleWorld ''openai'' [] ''{\"usage\": {\"prompt_tokens\": 10, \"completion_tokens\": 5}}''
     = Inr ([], 10, 5, [])"
  by code_simp

section \<open>Properties of the handler\<close>


















section \<open>Reading back an encoded string\<close>



lemma byteOf_eq_iff: "(byteOf c = byteOf d) = (c = d)"
  by (simp add: byteOf_def)























end
